theory Spec2Isabelle
  imports Complex_Main "HOL-Library.Multiset" "HOL-Library.Sublist"
begin

section \<open>Data model\<close>

text \<open>
  The application (\<^verbatim>\<open>src/app/GeoApp.py\<close>, with a command-line variant in
  \<^verbatim>\<open>src/app/GeoAppCmd.py\<close>) reads an address and a proximity threshold, geocodes the
  postal code found in the address, filters a table of locations by distance and renders
  a folium map.

  Coordinates and distances are finite Python floats and are modelled as \<^typ>\<open>real\<close>. The
  proximity threshold is whatever \<^verbatim>\<open>float()\<close> makes of the user's text, which may also be
  \<^verbatim>\<open>inf\<close>, \<^verbatim>\<open>-inf\<close> or \<^verbatim>\<open>nan\<close>; it has the type \<open>pyfloat\<close> below. A row of the
  location table is a record with the four columns that \<^verbatim>\<open>load_location_data\<close> selects; a
  DataFrame is the list of its rows, in index order.
\<close>

datatype pyfloat = Finite real | Pos_inf | Neg_inf | Nan

text \<open>Python's \<^verbatim>\<open><=\<close> on floats: a comparison with \<^verbatim>\<open>nan\<close> is \<^verbatim>\<open>False\<close>.\<close>

fun float_le :: "pyfloat \<Rightarrow> pyfloat \<Rightarrow> bool" where
  "float_le Nan _ = False"
| "float_le _ Nan = False"
| "float_le Neg_inf _ = True"
| "float_le _ Pos_inf = True"
| "float_le (Finite a) (Finite b) = (a \<le> b)"
| "float_le _ _ = False"

text \<open>\<^verbatim>\<open>proximity_threshold * 1000\<close>.\<close>

definition km_to_metres :: "pyfloat \<Rightarrow> pyfloat" where
  "km_to_metres x = (case x of Finite r \<Rightarrow> Finite (r * 1000) | _ \<Rightarrow> x)"

type_synonym coord = "real \<times> real"

record location =
  address :: string
  postal_code :: string
  latitude :: real
  longitude :: real

text \<open>A row of the frame that \<^verbatim>\<open>filter_locations\<close> returns: the location and the value of
  its added \<^verbatim>\<open>proximity\<close> column.\<close>

type_synonym located = "location \<times> real"

text \<open>
  Everything the program obtains from outside itself is a parameter of the model:
  Python's \<^verbatim>\<open>float()\<close> on the threshold text (\<open>None\<close> is \<^verbatim>\<open>ValueError\<close>; the
  texts \<^verbatim>\<open>nan\<close> and \<^verbatim>\<open>inf\<close> are among those it accepts), the
  entities \<^verbatim>\<open>(text, label)\<close> that the spaCy pipeline finds in an address, the two
  geocoders (\<open>None\<close> is geopy's \<^verbatim>\<open>None\<close> and pgeocode's empty result), the table
  read from \<^verbatim>\<open>locations.pkl\<close>, \<^verbatim>\<open>geopy.distance.distance(p, q).km\<close>, and the
  row order that pandas' \<^verbatim>\<open>sort_values\<close> produces for a key column.
\<close>

record env =
  py_float :: "string \<Rightarrow> pyfloat option"
  nlp :: "string \<Rightarrow> (string \<times> string) list"
  geopy_geocode :: "string option \<Rightarrow> coord option"
  pgeocode_query :: "string option \<Rightarrow> coord option"
  location_data :: "location list"
  distance_km :: "coord \<Rightarrow> coord \<Rightarrow> real"
  sort_values :: "(located \<Rightarrow> real) \<Rightarrow> located list \<Rightarrow> located list"

datatype py_error = ValueError | AttributeError | TypeError | EOFError

datatype outcome = Returned | Raised py_error

text \<open>The layers and controls that \<^verbatim>\<open>create_folium_map\<close> adds to a map, in the order of
  the calls.\<close>

datatype map_item =
    Heat_map "coord list"
  | Marker_cluster "(coord \<times> string) list"
  | Location_markers "located list" coord
  | Address_markers "location list"
  | Poly_line coord coord
  | Input_marker string coord
  | Proximity_circle coord pyfloat
  | Measure_control

record folium_map =
  center :: coord
  zoom_start :: int
  children :: "map_item list"

text \<open>What one submission does that a user or a service can observe, in order. Console
  output (\<^verbatim>\<open>print\<close>) is left out.\<close>

datatype event =
    Error_dialog string
  | Load_location_data
  | Load_spacy_model
  | Geocode_call string "string option"
  | Save_map string folium_map
  | Show_map string

fun is_error_dialog :: "event \<Rightarrow> bool" where
  "is_error_dialog (Error_dialog _) = True"
| "is_error_dialog _ = False"

fun is_geocode_call :: "event \<Rightarrow> bool" where
  "is_geocode_call (Geocode_call _ _) = True"
| "is_geocode_call _ = False"

fun is_fallback_call :: "event \<Rightarrow> bool" where
  "is_fallback_call (Geocode_call geo_service _) = (geo_service = ''pgeocode'')"
| "is_fallback_call _ = False"

fun is_map_event :: "event \<Rightarrow> bool" where
  "is_map_event (Save_map _ _) = True"
| "is_map_event (Show_map _) = True"
| "is_map_event _ = False"

section \<open>Input validation and the bounding box\<close>

text \<open>\<^verbatim>\<open>GeoApp.check_user_input\<close>: the result and the dialogs shown. The
  \<^verbatim>\<open>ValueError\<close> of \<^verbatim>\<open>float()\<close> is caught inside the function.\<close>

definition check_user_input :: "env \<Rightarrow> string \<Rightarrow> string \<Rightarrow> bool \<times> event list" where
  "check_user_input e input_address proximity_threshold =
     (if input_address = [] then (False, [Error_dialog ''Please enter an address.''])
      else if proximity_threshold = [] then
        (False, [Error_dialog ''Please enter a proximity threshold.''])
      else (case py_float e proximity_threshold of
              Some v \<Rightarrow>
                if float_le v (Finite 0) then
                  (False, [Error_dialog ''Proximity threshold must be a positive number.''])
                else (True, [])
            | None \<Rightarrow>
                (False, [Error_dialog ''Proximity threshold must be a valid number.''])))"

text \<open>\<^verbatim>\<open>GeoApp.check_location_in_sg\<close>.\<close>

definition check_location_in_sg :: "real \<Rightarrow> real \<Rightarrow> bool" where
  "check_location_in_sg lat lng =
     (let min_lat_sg = 1.15; max_lat_sg = 1.47; min_lng_sg = 103.6; max_lng_sg = 104.1
      in if (min_lat_sg \<le> lat \<and> lat \<le> max_lat_sg) \<and> (min_lng_sg \<le> lng \<and> lng \<le> max_lng_sg)
         then True else False)"

section \<open>Postal code extraction and geocoding\<close>

text \<open>The loop of \<^verbatim>\<open>GeoApp.extract_postal_code\<close>: the text of the first entity labelled
  \<^verbatim>\<open>POSTAL_CODE\<close>, or \<^verbatim>\<open>None\<close>.\<close>

fun first_postal_code :: "(string \<times> string) list \<Rightarrow> string option" where
  "first_postal_code [] = None"
| "first_postal_code ((ent_text, ent_label) # ent_list) =
     (if ent_label = ''POSTAL_CODE'' then Some ent_text else first_postal_code ent_list)"

definition extract_postal_code :: "env \<Rightarrow> string \<Rightarrow> string option" where
  "extract_postal_code e input_address = first_postal_code (nlp e input_address)"

text \<open>\<^verbatim>\<open>GeoApp.address_to_lat_long\<close>. In the first two branches the function returns the
  location when there is one and otherwise falls off its end, which returns \<^verbatim>\<open>None\<close>.\<close>

definition address_to_lat_long :: "env \<Rightarrow> string option \<Rightarrow> string \<Rightarrow> event list \<times> coord option" where
  "address_to_lat_long e addr geo_service =
     (if geo_service = ''geopy'' then
        ([Geocode_call ''geopy'' addr], geopy_geocode e addr)
      else if geo_service = ''pgeocode'' then
        ([Geocode_call ''pgeocode'' addr], pgeocode_query e addr)
      else ([], None))"

section \<open>Distance filter\<close>

text \<open>\<^verbatim>\<open>GeoApp.filter_locations\<close>. The boolean mask keeps the rows within the threshold, in
  table order. If any row is left, the \<^verbatim>\<open>proximity\<close> column is added and the frame is
  sorted on it by \<^verbatim>\<open>sort_values(by='proximity')\<close>, which is called with its default sort
  kind; the sort is the parameter \<open>srt\<close>. An empty frame is returned as it is, so the
  result is the list of the kept rows with their proximity, empty when no row is kept.\<close>

definition filter_locations ::
  "((located \<Rightarrow> real) \<Rightarrow> located list \<Rightarrow> located list) \<Rightarrow> (coord \<Rightarrow> coord \<Rightarrow> real) \<Rightarrow>
   location list \<Rightarrow> real \<Rightarrow> real \<Rightarrow> pyfloat \<Rightarrow> located list" where
  "filter_locations srt dist_km table user_latitude user_longitude proximity_threshold =
     (let filtered_locations =
            filter (\<lambda>row. float_le (Finite (dist_km (user_latitude, user_longitude)
                                                (latitude row, longitude row)))
                                   proximity_threshold) table
      in if filtered_locations \<noteq> [] then
           srt snd (map (\<lambda>row. (row, dist_km (user_latitude, user_longitude)
                                         (latitude row, longitude row))) filtered_locations)
         else [])"

text \<open>\<^verbatim>\<open>GeoAppCmd.filter_locations\<close>: the mask alone.\<close>

definition cmd_filter_locations ::
  "(coord \<Rightarrow> coord \<Rightarrow> real) \<Rightarrow> location list \<Rightarrow> real \<Rightarrow> real \<Rightarrow> pyfloat \<Rightarrow> location list" where
  "cmd_filter_locations dist_km table user_latitude user_longitude proximity_threshold =
     filter (\<lambda>row. float_le (Finite (dist_km (user_latitude, user_longitude)
                                         (latitude row, longitude row)))
                            proximity_threshold) table"

text \<open>What pandas documents for \<^verbatim>\<open>sort_values\<close> whatever the sort kind: the rows come
  back rearranged, ascending in the key. Only the kinds \<^verbatim>\<open>mergesort\<close> and
  \<^verbatim>\<open>stable\<close> are documented to keep rows with equal keys in their order; the default
  kind, \<^verbatim>\<open>quicksort\<close>, is not.\<close>

definition sorts_by_key :: "(('a \<Rightarrow> real) \<Rightarrow> 'a list \<Rightarrow> 'a list) \<Rightarrow> bool" where
  "sorts_by_key srt \<longleftrightarrow> (\<forall>key xs. sorted (map key (srt key xs)) \<and> mset (srt key xs) = mset xs)"

definition keeps_ties :: "(('a \<Rightarrow> real) \<Rightarrow> 'a list \<Rightarrow> 'a list) \<Rightarrow> bool" where
  "keeps_ties srt \<longleftrightarrow>
     (\<forall>key xs k. filter (\<lambda>x. key x = k) (srt key xs) = filter (\<lambda>x. key x = k) xs)"

text \<open>Insertion sort meets the contract and keeps ties in order; it is what the kind
  \<^verbatim>\<open>stable\<close> would give.\<close>

definition stable_sort :: "('a \<Rightarrow> real) \<Rightarrow> 'a list \<Rightarrow> 'a list" where
  "stable_sort key xs = sort_key key xs"

text \<open>
  The default kind. \<^verbatim>\<open>sort_values\<close> hands the key column to numpy's
  \<^verbatim>\<open>argsort(kind='quicksort')\<close>, which on x86-64 builds with the vectorised sort
  (AVX-512 or AVX2) sorts a short column of float64 keys with a bitonic network over
  (key, row) lanes: the column is padded with the largest value to a full vector, and each
  step compares pairs of lanes and exchanges a pair when the key in the upper lane is
  strictly less. A lane is \<open>None\<close> when it is padding. The steps on the first four lanes
  are (0,1) (2,3), then (0,3) (1,2), then (0,1) (2,3); with finite keys the padding lanes
  never move, so the wider AVX-512 vector gives the same order for up to four rows.
\<close>

fun lane_less :: "('a \<Rightarrow> real) \<Rightarrow> 'a option \<Rightarrow> 'a option \<Rightarrow> bool" where
  "lane_less key (Some x) (Some y) = (key x < key y)"
| "lane_less key (Some x) None = True"
| "lane_less key None _ = False"

definition cmp_merge :: "('a \<Rightarrow> real) \<Rightarrow> 'a option \<times> 'a option \<Rightarrow> 'a option \<times> 'a option" where
  "cmp_merge key lanes =
     (case lanes of (lower, upper) \<Rightarrow>
        if lane_less key upper lower then (upper, lower) else (lower, upper))"

definition sort_lanes :: "('a \<Rightarrow> real) \<Rightarrow> 'a option list \<Rightarrow> 'a option list" where
  "sort_lanes key lanes =
     (case lanes of
        [l0, l1, l2, l3] \<Rightarrow>
          (case (cmp_merge key (l0, l1), cmp_merge key (l2, l3)) of ((a0, a1), (a2, a3)) \<Rightarrow>
           case (cmp_merge key (a0, a3), cmp_merge key (a1, a2)) of ((b0, b3), (b1, b2)) \<Rightarrow>
           case (cmp_merge key (b0, b1), cmp_merge key (b2, b3)) of ((c0, c1), (c2, c3)) \<Rightarrow>
             [c0, c1, c2, c3])
      | _ \<Rightarrow> lanes)"

text \<open>Columns of more than four rows go through several vectors and, beyond the network's
  reach, through partitioning; those steps differ between builds and are not described
  here, where insertion sort stands for them.\<close>

definition quicksort_argsort :: "('a \<Rightarrow> real) \<Rightarrow> 'a list \<Rightarrow> 'a list" where
  "quicksort_argsort key xs =
     (if length xs \<le> 4 then
        List.map_filter id (sort_lanes key (take 4 (map Some xs @ [None, None, None, None])))
      else sort_key key xs)"

section \<open>Zoom level\<close>

text \<open>\<^verbatim>\<open>np.interp(x, [x0, x1], [f0, f1])\<close> for two sample points with \<open>x0 < x1\<close>: the
  end values outside the interval, the straight line between the points inside.\<close>

definition np_interp :: "real \<Rightarrow> real \<times> real \<Rightarrow> real \<times> real \<Rightarrow> real" where
  "np_interp x xp fp =
     (case (xp, fp) of ((x0, x1), (f0, f1)) \<Rightarrow>
        if x1 < x then f1
        else if x < x0 then f0
        else if x = x1 then f1
        else if x = x0 then f0
        else (f1 - f0) / (x1 - x0) * (x - x0) + f0)"

text \<open>Python's \<^verbatim>\<open>int()\<close> on a float truncates towards zero.\<close>

definition py_int :: "real \<Rightarrow> int" where
  "py_int r = (if 0 \<le> r then \<lfloor>r\<rfloor> else \<lceil>r\<rceil>)"

text \<open>\<^verbatim>\<open>GeoApp.get_zoom_level\<close>.\<close>

definition get_zoom_level :: "real \<Rightarrow> int" where
  "get_zoom_level proximity_threshold =
     (let min_threshold = 0.1; max_threshold = 10;
          zoom_min_threshold = 17; zoom_max_threshold = 12;
          zoom_level = np_interp proximity_threshold (min_threshold, max_threshold)
                         (zoom_min_threshold, zoom_max_threshold)
      in py_int zoom_level)"

text \<open>\<^verbatim>\<open>get_zoom_level\<close> on the threshold as it arrives, a float of any kind:
  \<^verbatim>\<open>np.interp\<close> gives the end values at \<^verbatim>\<open>inf\<close> and \<^verbatim>\<open>-inf\<close> and
  \<^verbatim>\<open>nan\<close> at \<^verbatim>\<open>nan\<close>, on which \<^verbatim>\<open>int()\<close> raises \<^verbatim>\<open>ValueError\<close>.\<close>

definition get_zoom_level_float :: "pyfloat \<Rightarrow> py_error + int" where
  "get_zoom_level_float proximity_threshold =
     (case proximity_threshold of
        Finite t \<Rightarrow> Inr (get_zoom_level t)
      | Pos_inf \<Rightarrow> Inr 12
      | Neg_inf \<Rightarrow> Inr 17
      | Nan \<Rightarrow> Inl ValueError)"

section \<open>Map rendering\<close>

text \<open>\<^verbatim>\<open>add_polyline_to_map\<close>: a line from the input location to every row whose
  proximity is the least one.\<close>

definition add_polyline_to_map :: "located list \<Rightarrow> real \<Rightarrow> real \<Rightarrow> map_item list" where
  "add_polyline_to_map df lat lng =
     (if df \<noteq> [] then
        map (\<lambda>row. Poly_line (lat, lng) (latitude (fst row), longitude (fst row)))
            (filter (\<lambda>row. snd row = min_list (map snd df)) df)
      else [])"

text \<open>\<^verbatim>\<open>GeoApp.create_folium_map\<close>; \<open>df\<close> is \<open>None\<close> when the caller passes
  \<^verbatim>\<open>None\<close>. The zoom level is computed first, so an error of \<^verbatim>\<open>get_zoom_level\<close> ends
  the call.\<close>

definition create_folium_map ::
  "located list option \<Rightarrow> string \<Rightarrow> real \<Rightarrow> real \<Rightarrow> pyfloat \<Rightarrow> string \<Rightarrow> py_error + folium_map" where
  "create_folium_map df input_address lat lng proximity_threshold map_type =
     (let layers =
            (case df of
               None \<Rightarrow> []
             | Some rows \<Rightarrow>
                 if map_type = ''Heat Density'' then
                   [Heat_map (map (\<lambda>row. (latitude (fst row), longitude (fst row))) rows)]
                 else if map_type = ''Clusters'' then
                   [Marker_cluster
                      (map (\<lambda>row. ((latitude (fst row), longitude (fst row)), address (fst row)))
                           rows)]
                 else if map_type = ''Proximity'' then
                   Location_markers rows (lat, lng) # add_polyline_to_map rows lat lng
                 else [])
      in case get_zoom_level_float proximity_threshold of
           Inl err \<Rightarrow> Inl err
         | Inr custom_zoom \<Rightarrow>
             Inr \<lparr>center = (lat, lng), zoom_start = custom_zoom,
                  children = layers @ [Input_marker input_address (lat, lng),
                                       Proximity_circle (lat, lng)
                                         (km_to_metres proximity_threshold),
                                       Measure_control]\<rparr>)"

text \<open>The file name that \<^verbatim>\<open>display_map\<close> builds; the directory is left out.\<close>

definition underscored :: "string \<Rightarrow> string" where
  "underscored s = map (\<lambda>c. if c = CHR '' '' then CHR ''_'' else c) s"

definition map_filename :: "string \<Rightarrow> string \<Rightarrow> string" where
  "map_filename input_address map_type =
     ''map_'' @ underscored input_address @ ''_'' @ underscored map_type @ ''.html''"

text \<open>\<^verbatim>\<open>GeoApp.display_map\<close>: the map is created, saved and loaded into the web view.\<close>

definition display_map ::
  "located list option \<Rightarrow> string \<Rightarrow> real \<Rightarrow> real \<Rightarrow> pyfloat \<Rightarrow> string \<Rightarrow> event list \<times> outcome" where
  "display_map df input_address lat lng proximity_threshold map_type =
     (let map_filepath = map_filename input_address map_type
      in case create_folium_map df input_address lat lng proximity_threshold map_type of
           Inl err \<Rightarrow> ([], Raised err)
         | Inr m \<Rightarrow> ([Save_map map_filepath m, Show_map map_filepath], Returned))"

text \<open>A call of \<^verbatim>\<open>display_map\<close> with its first five arguments and, possibly, the sixth.
  \<^verbatim>\<open>map_type\<close> has no default value, so Python raises \<^verbatim>\<open>TypeError\<close> for a call
  that leaves it out, before the body runs.\<close>

definition call_display_map ::
  "located list option \<Rightarrow> string \<Rightarrow> real \<Rightarrow> real \<Rightarrow> pyfloat \<Rightarrow> string option \<Rightarrow> event list \<times> outcome" where
  "call_display_map df input_address lat lng proximity_threshold sixth =
     (case sixth of
        None \<Rightarrow> ([], Raised TypeError)
      | Some map_type \<Rightarrow> display_map df input_address lat lng proximity_threshold map_type)"

section \<open>Handling one submission\<close>

text \<open>Lines 137 to 157 of \<^verbatim>\<open>GeoApp.process_user_input\<close>: what happens once
  \<^verbatim>\<open>location_in_sg\<close> is known. In the branch for an empty result the source calls
  \<^verbatim>\<open>display_map\<close> with five arguments; the dialog after it runs only if the call
  returns.\<close>

definition show_results ::
  "env \<Rightarrow> string \<Rightarrow> pyfloat \<Rightarrow> string \<Rightarrow> real \<Rightarrow> real \<Rightarrow> bool \<Rightarrow> event list \<times> outcome" where
  "show_results e input_address proximity_threshold map_type lat lng location_in_sg =
     (if location_in_sg = True then
        (let filtered_locations =
               filter_locations (sort_values e) (distance_km e) (location_data e)
                 lat lng proximity_threshold
         in if filtered_locations \<noteq> [] then
              call_display_map (Some filtered_locations) input_address lat lng
                proximity_threshold (Some map_type)
            else
              (case call_display_map None input_address lat lng proximity_threshold None of
                 (evs, Returned) \<Rightarrow>
                   (evs @ [Error_dialog ''No locations found within the specified proximity.''],
                    Returned)
               | (evs, Raised err) \<Rightarrow> (evs, Raised err)))
      else ([Error_dialog ''Unable to retrieve valid coordinates in Singapore''], Returned))"

text \<open>\<^verbatim>\<open>GeoApp.process_user_input\<close>. After a retry with pgeocode the source reads
  \<^verbatim>\<open>user_location.latitude\<close> without testing for \<^verbatim>\<open>None\<close>, which raises
  \<^verbatim>\<open>AttributeError\<close> on \<^verbatim>\<open>None\<close>.\<close>

definition process_user_input :: "env \<Rightarrow> string \<Rightarrow> string \<Rightarrow> string \<Rightarrow> event list \<times> outcome" where
  "process_user_input e input_address proximity_text map_type =
     (case check_user_input e input_address proximity_text of
        (False, evs) \<Rightarrow> (evs, Returned)
      | (True, evs) \<Rightarrow>
          (case py_float e proximity_text of
             None \<Rightarrow> (evs, Raised ValueError)
           | Some proximity_threshold \<Rightarrow>
               (let loaded = evs @ [Load_location_data, Load_spacy_model];
                    postal = extract_postal_code e input_address;
                    (evs1, user_location) = address_to_lat_long e postal ''geopy''
                in case user_location of
                     None \<Rightarrow>
                       (loaded @ evs1 @
                          [Error_dialog ''Unable to retrieve coordinates for the address''],
                        Returned)
                   | Some (user_latitude, user_longitude) \<Rightarrow>
                       if check_location_in_sg user_latitude user_longitude = False then
                         (let (evs2, user_location2) = address_to_lat_long e postal ''pgeocode''
                          in case user_location2 of
                               None \<Rightarrow> (loaded @ evs1 @ evs2, Raised AttributeError)
                             | Some (user_latitude2, user_longitude2) \<Rightarrow>
                                 (case show_results e input_address proximity_threshold map_type
                                         user_latitude2 user_longitude2
                                         (check_location_in_sg user_latitude2 user_longitude2) of
                                    (evs3, out) \<Rightarrow> (loaded @ evs1 @ evs2 @ evs3, out)))
                       else
                         (case show_results e input_address proximity_threshold map_type
                                 user_latitude user_longitude True of
                            (evs3, out) \<Rightarrow> (loaded @ evs1 @ evs3, out)))))"

section \<open>The command-line variant\<close>

text \<open>\<^verbatim>\<open>GeoAppCmd.address_to_lat_long\<close>: Nominatim alone, with no fallback.\<close>

definition cmd_address_to_lat_long :: "env \<Rightarrow> string option \<Rightarrow> event list \<times> coord option" where
  "cmd_address_to_lat_long e addr = ([Geocode_call ''geopy'' addr], geopy_geocode e addr)"

text \<open>\<^verbatim>\<open>GeoAppCmd.get_zoom_level\<close>, with zoom levels 19 and 13, and the same on any
  float.\<close>

definition cmd_get_zoom_level :: "real \<Rightarrow> int" where
  "cmd_get_zoom_level proximity_threshold =
     (let min_threshold = 0.1; max_threshold = 10; min_zoom = 19; max_zoom = 13;
          zoom_level = np_interp proximity_threshold (min_threshold, max_threshold)
                         (min_zoom, max_zoom)
      in py_int zoom_level)"

definition cmd_get_zoom_level_float :: "pyfloat \<Rightarrow> py_error + int" where
  "cmd_get_zoom_level_float proximity_threshold =
     (case proximity_threshold of
        Finite t \<Rightarrow> Inr (cmd_get_zoom_level t)
      | Pos_inf \<Rightarrow> Inr 13
      | Neg_inf \<Rightarrow> Inr 19
      | Nan \<Rightarrow> Inl ValueError)"

text \<open>\<^verbatim>\<open>GeoAppCmd.create_folium_map\<close>: the markers of the filtered locations, grouped by
  coordinate, the input marker and the circle.\<close>

definition cmd_create_folium_map ::
  "location list \<Rightarrow> string \<Rightarrow> real \<Rightarrow> real \<Rightarrow> pyfloat \<Rightarrow> py_error + folium_map" where
  "cmd_create_folium_map df input_address lat lng proximity_threshold =
     (case cmd_get_zoom_level_float proximity_threshold of
        Inl err \<Rightarrow> Inl err
      | Inr custom_zoom \<Rightarrow>
          Inr \<lparr>center = (lat, lng), zoom_start = custom_zoom,
               children = [Address_markers df, Input_marker input_address (lat, lng),
                           Proximity_circle (lat, lng) (km_to_metres proximity_threshold)]\<rparr>)"

text \<open>\<^verbatim>\<open>GeoAppCmd.display_map\<close>: the map is saved as \<^verbatim>\<open>map.html\<close> and shown in a
  window.\<close>

definition cmd_display_map ::
  "location list \<Rightarrow> string \<Rightarrow> real \<Rightarrow> real \<Rightarrow> pyfloat \<Rightarrow> event list \<times> outcome" where
  "cmd_display_map df input_address lat lng proximity_threshold =
     (case cmd_create_folium_map df input_address lat lng proximity_threshold of
        Inl err \<Rightarrow> ([], Raised err)
      | Inr m \<Rightarrow> ([Save_map ''map.html'' m, Show_map ''map.html''], Returned))"

text \<open>\<^verbatim>\<open>GeoAppCmd.get_user_input\<close>, reading the lines of standard input in turn: an address
  and a threshold, asked again while \<^verbatim>\<open>float()\<close> fails. \<^verbatim>\<open>input()\<close> raises
  \<^verbatim>\<open>EOFError\<close> when no line is left. The result comes with the lines not yet read.\<close>

fun get_user_input :: "env \<Rightarrow> string list \<Rightarrow> (py_error + string \<times> pyfloat) \<times> string list" where
  "get_user_input e (input_address # proximity_text # rest) =
     (case py_float e proximity_text of
        Some proximity_threshold \<Rightarrow> (Inr (input_address, proximity_threshold), rest)
      | None \<Rightarrow> get_user_input e rest)"
| "get_user_input e _ = (Inl EOFError, [])"

text \<open>The loop of \<^verbatim>\<open>GeoAppCmd.run\<close>: it asks again while the geocoder has no result, and
  ends after the first submission that has one. There is no test of the coordinate against
  the bounding box anywhere in this variant.\<close>

function run_loop :: "env \<Rightarrow> string list \<Rightarrow> event list \<times> outcome" where
  "run_loop e stdin =
     (case get_user_input e stdin of
        (Inl err, rest) \<Rightarrow> ([], Raised err)
      | (Inr (input_address, proximity_threshold), rest) \<Rightarrow>
          (case cmd_address_to_lat_long e (first_postal_code (nlp e input_address)) of
             (evs, Some (user_latitude, user_longitude)) \<Rightarrow>
               (let filtered_locations =
                      cmd_filter_locations (distance_km e) (location_data e)
                        user_latitude user_longitude proximity_threshold
                in if filtered_locations \<noteq> [] then
                     (case cmd_display_map filtered_locations input_address
                             user_latitude user_longitude proximity_threshold of
                        (evs2, out) \<Rightarrow> (evs @ evs2, out))
                   else (evs, Returned))
           | (evs, None) \<Rightarrow>
               (case run_loop e rest of (evs2, out) \<Rightarrow> (evs @ evs2, out))))"
  by pat_completeness auto
termination
proof (relation "measure (\<lambda>(e, stdin). length stdin)")
  show "wf (measure (\<lambda>(e, stdin). length stdin))"
    by simp
next
  fix e :: env and stdin rest :: "string list" and answer read
  assume "(read, rest) = get_user_input e stdin" and "read = Inr answer"
  then have "get_user_input e stdin = (Inr answer, rest)"
    by simp
  then have "length rest < length stdin"
    by (induction e stdin rule: get_user_input.induct) (auto split: option.splits)
  then show "((e, rest), (e, stdin)) \<in> measure (\<lambda>(e, stdin). length stdin)"
    by simp
qed

text \<open>\<^verbatim>\<open>GeoAppCmd.run\<close>.\<close>

definition cmd_run :: "env \<Rightarrow> string list \<Rightarrow> event list \<times> outcome" where
  "cmd_run e stdin =
     (case run_loop e stdin of
        (evs, out) \<Rightarrow> (Load_location_data # Load_spacy_model # evs, out))"

section \<open>Example inputs\<close>

text \<open>Concrete inputs on which the model is evaluated below. \<open>flat_km\<close> stands in for the
  geodesic distance (about 111 km for a degree); the two units of block 5 share one
  coordinate, so they are at the same distance from any point.\<close>

definition flat_km :: "coord \<Rightarrow> coord \<Rightarrow> real" where
  "flat_km p q = 111 * (\<bar>fst p - fst q\<bar> + \<bar>snd p - snd q\<bar>)"

definition site_far :: location where
  "site_far = \<lparr>address = ''1 Woodlands Ave'', postal_code = ''730001'', latitude = 1.4, longitude = 103.8\<rparr>"

definition site_near :: location where
  "site_near = \<lparr>address = ''2 Orchard Rd'', postal_code = ''238801'', latitude = 1.3, longitude = 103.8\<rparr>"

definition unit_a :: location where
  "unit_a = \<lparr>address = ''Blk 5 #01-01'', postal_code = ''560005'', latitude = 1.31, longitude = 103.8\<rparr>"

definition unit_b :: location where
  "unit_b = \<lparr>address = ''Blk 5 #02-02'', postal_code = ''560005'', latitude = 1.31, longitude = 103.8\<rparr>"

definition site_mid :: location where
  "site_mid = \<lparr>address = ''9 Scotts Rd'', postal_code = ''228210'', latitude = 1.305, longitude = 103.8\<rparr>"

definition example_float :: "string \<Rightarrow> pyfloat option" where
  "example_float s =
     (if s = ''2'' then Some (Finite 2) else if s = ''20'' then Some (Finite 20)
      else if s = ''0'' then Some (Finite 0) else if s = ''-1'' then Some (Finite (- 1))
      else if s = ''nan'' then Some Nan else if s = ''inf'' then Some Pos_inf
      else None)"

definition example_nlp :: "string \<Rightarrow> (string \<times> string) list" where
  "example_nlp s =
     (if s = ''123 ABC Road Singapore 987123''
      then [(''123'', ''HOUSE_NO''), (''ABC Road'', ''STREET''), (''987123'', ''POSTAL_CODE'')]
      else if s = ''Jalan Wong Ah Fook Johor Bahru 80000''
      then [(''Jalan Wong Ah Fook'', ''STREET''), (''80000'', ''POSTAL_CODE'')]
      else [])"

definition env_sg :: env where
  "env_sg = \<lparr>py_float = example_float, nlp = example_nlp,
     geopy_geocode = (\<lambda>a. if a = Some ''987123'' then Some (1.3, 103.8) else None),
     pgeocode_query = (\<lambda>a. if a = Some ''987123'' then Some (1.3, 103.8) else None),
     location_data = [site_far, unit_a, site_near, unit_b],
     distance_km = flat_km, sort_values = stable_sort\<rparr>"

definition env_no_result :: env where
  "env_no_result = env_sg\<lparr>geopy_geocode := (\<lambda>a. None)\<rparr>"

definition env_abroad :: env where
  "env_abroad = env_sg\<lparr>geopy_geocode := (\<lambda>a. Some (44.93, 7.54)),
                         pgeocode_query := (\<lambda>a. if a = None then None else Some (1.3, 103.8))\<rparr>"

definition env_remote :: env where
  "env_remote = env_sg\<lparr>location_data := [site_far]\<rparr>"

text \<open>The geocoder places postal code 80000 in Johor Bahru, north of the bounding box and
  about 17 km from \<open>site_far\<close>.\<close>

definition env_jb :: env where
  "env_jb = env_sg\<lparr>geopy_geocode := (\<lambda>a. if a = Some ''80000'' then Some (1.4927, 103.7414)
                                          else None)\<rparr>"

definition map_jb :: folium_map where
  "map_jb = \<lparr>center = (1.4927, 103.7414), zoom_start = 13,
     children = [Address_markers [site_far],
                 Input_marker ''Jalan Wong Ah Fook Johor Bahru 80000'' (1.4927, 103.7414),
                 Proximity_circle (1.4927, 103.7414) (Finite 20000)]\<rparr>"

definition map_sg :: folium_map where
  "map_sg = \<lparr>center = (1.3, 103.8), zoom_start = 16,
     children = [Marker_cluster [((1.3, 103.8), ''2 Orchard Rd''),
                                 ((1.31, 103.8), ''Blk 5 #01-01''),
                                 ((1.31, 103.8), ''Blk 5 #02-02'')],
                 Input_marker ''123 ABC Road Singapore 987123'' (1.3, 103.8),
                 Proximity_circle (1.3, 103.8) (Finite 2000),
                 Measure_control]\<rparr>"

definition env_abroad_twice :: env where
  "env_abroad_twice = env_sg\<lparr>geopy_geocode := (\<lambda>a. Some (44.93, 7.54)),
                               pgeocode_query := (\<lambda>a. Some (3.14, 101.69))\<rparr>"

section \<open>Properties of the zoom level\<close>

lemma np_interp_bounds:
  "12 \<le> np_interp t (0.1, 10) (17, 12) \<and> np_interp t (0.1, 10) (17, 12) \<le> 17"
proof -
  have "0.1 \<le> t \<Longrightarrow> t \<le> 10 \<Longrightarrow> (12 - 17) / (10 - 0.1) * (t - 0.1) + 17 \<le> (17::real)"
    by (simp add: field_simps)
  moreover have "0.1 \<le> t \<Longrightarrow> t \<le> 10 \<Longrightarrow> 12 \<le> (12 - 17) / (10 - 0.1) * (t - 0.1) + (17::real)"
    by (simp add: field_simps)
  ultimately show ?thesis
    by (simp add: np_interp_def)
qed

lemma np_interp_antimono:
  assumes "t \<le> t'"
  shows "np_interp t' (0.1, 10) (17, 12) \<le> np_interp t (0.1, 10) (17, 12)"
  using assms np_interp_bounds[of t] np_interp_bounds[of t']
  by (auto simp add: np_interp_def field_simps split: if_splits)

lemma py_int_mono:
  assumes "a \<le> b"
  shows "py_int a \<le> py_int b"
proof (cases "0 \<le> a")
  case True
  with assms show ?thesis by (simp add: py_int_def floor_mono)
next
  case False
  show ?thesis
  proof (cases "0 \<le> b")
    case True
    have "\<lceil>a\<rceil> \<le> 0" using False by (simp add: ceiling_le_zero)
    moreover have "0 \<le> \<lfloor>b\<rfloor>" using True by simp
    ultimately have "\<lceil>a\<rceil> \<le> \<lfloor>b\<rfloor>" by linarith
    then show ?thesis using False True by (simp add: py_int_def)
  next
    case False
    with \<open>\<not> 0 \<le> a\<close> assms show ?thesis by (simp add: py_int_def ceiling_mono)
  qed
qed

text \<open>
  Claim C10. For every proximity threshold, \<^verbatim>\<open>GeoApp.get_zoom_level\<close> returns an integer
  between 12 and 17 inclusive; thresholds below 0.1 km give 17, thresholds above 10 km give
  12, and the zoom level does not increase as the threshold grows.
\<close>

theorem get_zoom_level_range:
  "12 \<le> get_zoom_level t \<and> get_zoom_level t \<le> 17 \<and>
   (t < 0.1 \<longrightarrow> get_zoom_level t = 17) \<and> (10 < t \<longrightarrow> get_zoom_level t = 12) \<and>
   (t \<le> t' \<longrightarrow> get_zoom_level t' \<le> get_zoom_level t)"
proof -
  let ?z = "\<lambda>x. np_interp x (0.1, 10) (17, 12)"
  have z: "get_zoom_level x = py_int (?z x)" for x
    by (simp add: get_zoom_level_def)
  have "py_int 12 \<le> py_int (?z t)" "py_int (?z t) \<le> py_int 17"
    using np_interp_bounds[of t] by (auto intro: py_int_mono)
  then have b: "12 \<le> get_zoom_level t" "get_zoom_level t \<le> 17"
    by (simp_all add: z py_int_def)
  have lo: "t < 0.1 \<Longrightarrow> get_zoom_level t = 17"
    by (simp add: z np_interp_def py_int_def)
  have hi: "10 < t \<Longrightarrow> get_zoom_level t = 12"
    by (simp add: z np_interp_def py_int_def)
  have mono: "t \<le> t' \<Longrightarrow> get_zoom_level t' \<le> get_zoom_level t"
    by (simp add: z py_int_mono np_interp_antimono)
  show ?thesis using b lo hi mono by blast
qed

theorem get_zoom_level_range_witness:
  "(0.05::real) < 0.1 \<and> get_zoom_level 0.05 = 17 \<and> (10::real) < 25 \<and> get_zoom_level 25 = 12 \<and>
   (2::real) \<le> 5 \<and> get_zoom_level 5 \<le> get_zoom_level 2 \<and>
   12 \<le> get_zoom_level 2 \<and> get_zoom_level 2 \<le> 17"
  using get_zoom_level_range[of "0.05" 2] get_zoom_level_range[of 25 2]
        get_zoom_level_range[of 2 5]
  by simp

section \<open>Properties of the distance filter\<close>

lemma sorts_by_key_stable_sort: "sorts_by_key stable_sort"
  by (simp add: sorts_by_key_def stable_sort_def)

lemma keeps_ties_stable_sort: "keeps_ties stable_sort"
  by (simp add: keeps_ties_def stable_sort_def sort_key_stable)

lemma filter_locations_mset:
  assumes "sorts_by_key srt"
  shows "mset (filter_locations srt dist_km table lat lng thr) =
         mset (map (\<lambda>row. (row, dist_km (lat, lng) (latitude row, longitude row)))
                 (cmd_filter_locations dist_km table lat lng thr))"
  using assms
  by (auto simp add: filter_locations_def cmd_filter_locations_def sorts_by_key_def Let_def
        filter_empty_conv)

lemma filter_locations_sorted:
  assumes "sorts_by_key srt"
  shows "sorted (map snd (filter_locations srt dist_km table lat lng thr))"
  using assms by (simp add: filter_locations_def sorts_by_key_def Let_def)

lemma filter_locations_set:
  assumes "sorts_by_key srt"
  shows "set (filter_locations srt dist_km table lat lng thr) =
         (\<lambda>row. (row, dist_km (lat, lng) (latitude row, longitude row))) `
           {row \<in> set table.
              float_le (Finite (dist_km (lat, lng) (latitude row, longitude row))) thr}"
proof -
  have "set (filter_locations srt dist_km table lat lng thr) =
        set_mset (mset (filter_locations srt dist_km table lat lng thr))" by simp
  also have "\<dots> = set (map (\<lambda>row. (row, dist_km (lat, lng) (latitude row, longitude row)))
                 (cmd_filter_locations dist_km table lat lng thr))"
    unfolding filter_locations_mset[OF assms] by simp
  finally show ?thesis by (simp add: cmd_filter_locations_def)
qed

lemma filter_annotated:
  "filter (\<lambda>r. snd r = d) (map (\<lambda>row. (row, D row)) xs) =
   map (\<lambda>row. (row, d)) (filter (\<lambda>row. D row = d) xs)"
  by (induction xs) auto

lemmas example_defs = example_float_def example_nlp_def env_sg_def env_no_result_def env_abroad_def
  env_abroad_twice_def env_remote_def env_jb_def flat_km_def site_far_def site_near_def
  site_mid_def unit_a_def unit_b_def

lemma example_filter_2km:
  "filter_locations stable_sort flat_km [site_far, unit_a, site_near, unit_b] 1.3 103.8 (Finite 2)
   = [(site_near, 0), (unit_a, 1.11), (unit_b, 1.11)]"
  by (simp add: filter_locations_def stable_sort_def example_defs)

text \<open>
  Claim C1, as amended. For every location table, query coordinate and threshold, every
  record that \<^verbatim>\<open>GeoApp.filter_locations\<close> returns is a record of the table whose distance
  to the query coordinate is at most the threshold, its \<^verbatim>\<open>proximity\<close> is that distance,
  and the records are in non-decreasing order of distance. Every record that
  \<^verbatim>\<open>GeoAppCmd.filter_locations\<close> returns is within the threshold too, but that function
  does not sort: it returns the records in table order.
\<close>

theorem filter_locations_within_sorted:
  assumes "sorts_by_key srt"
  shows "(\<forall>r \<in> set (filter_locations srt dist_km table lat lng thr).
            fst r \<in> set table \<and>
            snd r = dist_km (lat, lng) (latitude (fst r), longitude (fst r)) \<and>
            float_le (Finite (snd r)) thr)
       \<and> sorted (map snd (filter_locations srt dist_km table lat lng thr))
       \<and> (\<forall>row \<in> set (cmd_filter_locations dist_km table lat lng thr).
            row \<in> set table \<and>
            float_le (Finite (dist_km (lat, lng) (latitude row, longitude row))) thr)
       \<and> subseq (cmd_filter_locations dist_km table lat lng thr) table"
proof -
  have a: "\<forall>r \<in> set (filter_locations srt dist_km table lat lng thr).
            fst r \<in> set table \<and>
            snd r = dist_km (lat, lng) (latitude (fst r), longitude (fst r)) \<and>
            float_le (Finite (snd r)) thr"
    unfolding filter_locations_set[OF assms] by auto
  have b: "sorted (map snd (filter_locations srt dist_km table lat lng thr))"
    by (rule filter_locations_sorted[OF assms])
  have c: "\<forall>row \<in> set (cmd_filter_locations dist_km table lat lng thr).
            row \<in> set table \<and>
            float_le (Finite (dist_km (lat, lng) (latitude row, longitude row))) thr"
    by (simp add: cmd_filter_locations_def)
  have d: "subseq (cmd_filter_locations dist_km table lat lng thr) table"
    by (simp add: cmd_filter_locations_def)
  from a b c d show ?thesis by blast
qed

theorem filter_locations_within_sorted_witness:
  "sorts_by_key (stable_sort :: (located \<Rightarrow> real) \<Rightarrow> _) \<and>
   filter_locations stable_sort flat_km [site_far, unit_a, site_near, unit_b] 1.3 103.8 (Finite 2)
     = [(site_near, 0), (unit_a, 1.11), (unit_b, 1.11)] \<and>
   sorted (map snd (filter_locations stable_sort flat_km [site_far, unit_a, site_near, unit_b]
                      1.3 103.8 (Finite 2))) \<and>
   list_all (\<lambda>r. snd r \<le> 2)
     (filter_locations stable_sort flat_km [site_far, unit_a, site_near, unit_b] 1.3 103.8
        (Finite 2)) \<and>
   subseq (cmd_filter_locations flat_km [site_far, unit_a, site_near, unit_b] 1.3 103.8 (Finite 2))
     [site_far, unit_a, site_near, unit_b]"
proof -
  note t = filter_locations_within_sorted[OF sorts_by_key_stable_sort,
          of flat_km "[site_far, unit_a, site_near, unit_b]" "1.3" "103.8" "Finite 2"]
  from t have "\<forall>r \<in> set (filter_locations stable_sort flat_km
                   [site_far, unit_a, site_near, unit_b] 1.3 103.8 (Finite 2)).
                 float_le (Finite (snd r)) (Finite 2)"
    by blast
  then have "list_all (\<lambda>r. snd r \<le> 2)
     (filter_locations stable_sort flat_km [site_far, unit_a, site_near, unit_b] 1.3 103.8
        (Finite 2))"
    by (simp add: list_all_iff)
  with t sorts_by_key_stable_sort example_filter_2km show ?thesis
    by blast
qed

text \<open>
  Claim C1 as stated fails for \<^verbatim>\<open>GeoAppCmd.filter_locations\<close>: with the farther record
  first in the table and both within 20 km, the result keeps the farther record first.
\<close>

theorem cmd_filter_locations_unsorted:
  "cmd_filter_locations flat_km [site_far, site_near] 1.3 103.8 (Finite 20)
     = [site_far, site_near] \<and>
   flat_km (1.3, 103.8) (latitude site_near, longitude site_near)
     < flat_km (1.3, 103.8) (latitude site_far, longitude site_far)"
  by (simp add: cmd_filter_locations_def example_defs)

text \<open>
  Claim C9. If the threshold is at least the distance from the query coordinate to every
  record of the table, \<^verbatim>\<open>filter_locations\<close> returns as many records as the table has
  (indeed the same records, each once for each time it is in the table).
\<close>

theorem filter_locations_whole_table:
  assumes "sorts_by_key srt"
      and "\<forall>row \<in> set table.
             float_le (Finite (dist_km (lat, lng) (latitude row, longitude row))) thr"
  shows "length (filter_locations srt dist_km table lat lng thr) = length table \<and>
         mset (map fst (filter_locations srt dist_km table lat lng thr)) = mset table"
proof -
  have all: "cmd_filter_locations dist_km table lat lng thr = table"
    using assms(2) by (simp add: cmd_filter_locations_def)
  have m: "mset (filter_locations srt dist_km table lat lng thr) =
           mset (map (\<lambda>row. (row, dist_km (lat, lng) (latitude row, longitude row))) table)"
    using filter_locations_mset[OF assms(1), of dist_km table lat lng thr] by (simp only: all)
  have "size (mset (filter_locations srt dist_km table lat lng thr)) = size (mset table)"
    unfolding m by simp
  then have len: "length (filter_locations srt dist_km table lat lng thr) = length table"
    by simp
  have "mset (map fst (filter_locations srt dist_km table lat lng thr)) =
        image_mset fst (mset (filter_locations srt dist_km table lat lng thr))"
    by simp
  also have "\<dots> = mset table"
    unfolding m by (simp add: multiset.map_comp comp_def)
  finally show ?thesis using len by simp
qed

theorem filter_locations_whole_table_witness:
  "sorts_by_key (stable_sort :: (located \<Rightarrow> real) \<Rightarrow> _) \<and>
   list_all (\<lambda>row. flat_km (1.3, 103.8) (latitude row, longitude row) \<le> 20)
     [site_far, unit_a, site_near, unit_b] \<and>
   length (filter_locations stable_sort flat_km [site_far, unit_a, site_near, unit_b]
             1.3 103.8 (Finite 20)) = 4"
proof -
  have h: "\<forall>row \<in> set [site_far, unit_a, site_near, unit_b].
      float_le (Finite (flat_km (1.3, 103.8) (latitude row, longitude row))) (Finite 20)"
    by (simp add: example_defs)
  from filter_locations_whole_table[of stable_sort "[site_far, unit_a, site_near, unit_b]"
         flat_km "1.3" "103.8" "Finite 20", OF sorts_by_key_stable_sort h]
  have "length (filter_locations stable_sort flat_km [site_far, unit_a, site_near, unit_b]
             1.3 103.8 (Finite 20)) = length [site_far, unit_a, site_near, unit_b]"
    by blast
  with h sorts_by_key_stable_sort show ?thesis by (simp add: list_all_iff)
qed

text \<open>
  Claim C4, as amended. The records at one distance \<open>d\<close> within the threshold all appear
  in the result of \<^verbatim>\<open>filter_locations\<close>, as often as in the table. They are in their
  table order whenever the sort that \<^verbatim>\<open>sort_values\<close> applies keeps rows with equal keys
  in order; the code asks for no such sort, and the default kind, \<^verbatim>\<open>quicksort\<close>, is not
  one.
\<close>

theorem filter_locations_ties:
  assumes "sorts_by_key srt"
  shows "mset (filter (\<lambda>r. snd r = d) (filter_locations srt dist_km table lat lng thr)) =
         mset (map (\<lambda>row. (row, d))
                (filter (\<lambda>row. dist_km (lat, lng) (latitude row, longitude row) = d \<and>
                               float_le (Finite d) thr) table))
       \<and> (keeps_ties srt \<longrightarrow>
            map fst (filter (\<lambda>r. snd r = d) (filter_locations srt dist_km table lat lng thr)) =
            filter (\<lambda>row. dist_km (lat, lng) (latitude row, longitude row) = d \<and>
                          float_le (Finite d) thr) table)"
proof -
  let ?D = "\<lambda>row. dist_km (lat, lng) (latitude row, longitude row)"
  let ?kept = "filter (\<lambda>row. float_le (Finite (?D row)) thr) table"
  let ?ties = "filter (\<lambda>row. ?D row = d \<and> float_le (Finite d) thr) table"
  have ties: "filter (\<lambda>row. ?D row = d) ?kept = ?ties"
    by (induction table) auto
  have "mset (filter (\<lambda>r. snd r = d) (filter_locations srt dist_km table lat lng thr)) =
        filter_mset (\<lambda>r. snd r = d) (mset (map (\<lambda>row. (row, ?D row)) ?kept))"
    using filter_locations_mset[OF assms, of dist_km table lat lng thr]
    by (simp add: cmd_filter_locations_def)
  also have "\<dots> = mset (filter (\<lambda>r. snd r = d) (map (\<lambda>row. (row, ?D row)) ?kept))"
    by simp
  also have "\<dots> = mset (map (\<lambda>row. (row, d)) ?ties)"
    by (simp only: filter_annotated ties)
  finally have first:
    "mset (filter (\<lambda>r. snd r = d) (filter_locations srt dist_km table lat lng thr)) =
        mset (map (\<lambda>row. (row, d)) ?ties)" .
  have second:
    "map fst (filter (\<lambda>r. snd r = d) (filter_locations srt dist_km table lat lng thr)) = ?ties"
    if "keeps_ties srt"
  proof (cases "?kept = []")
    case True
    then have "?ties = []" using ties by (metis filter.simps(1))
    with True show ?thesis by (simp add: filter_locations_def)
  next
    case False
    then have "filter_locations srt dist_km table lat lng thr =
               srt snd (map (\<lambda>row. (row, ?D row)) ?kept)"
      by (simp add: filter_locations_def)
    moreover have "filter (\<lambda>r. snd r = d) (srt snd (map (\<lambda>row. (row, ?D row)) ?kept)) =
                   filter (\<lambda>r. snd r = d) (map (\<lambda>row. (row, ?D row)) ?kept)"
      using that by (simp add: keeps_ties_def)
    ultimately have
      "map fst (filter (\<lambda>r. snd r = d) (filter_locations srt dist_km table lat lng thr)) =
         map fst (map (\<lambda>row. (row, d)) ?ties)"
      by (simp only: filter_annotated ties)
    then show ?thesis by (simp add: comp_def)
  qed
  from first second show ?thesis by blast
qed

theorem filter_locations_ties_witness:
  "sorts_by_key (stable_sort :: (located \<Rightarrow> real) \<Rightarrow> _) \<and>
   keeps_ties (stable_sort :: (located \<Rightarrow> real) \<Rightarrow> _) \<and>
   map fst (filter (\<lambda>r. snd r = 1.11)
     (filter_locations stable_sort flat_km [unit_a, site_near, unit_b] 1.3 103.8 (Finite 20)))
     = [unit_a, unit_b]"
proof -
  have s: "sorts_by_key (stable_sort :: (located \<Rightarrow> real) \<Rightarrow> _)"
    by (rule sorts_by_key_stable_sort)
  have k: "keeps_ties (stable_sort :: (located \<Rightarrow> real) \<Rightarrow> _)"
    by (rule keeps_ties_stable_sort)
  have ties: "filter (\<lambda>row. flat_km (1.3, 103.8) (latitude row, longitude row) = 1.11 \<and>
                            float_le (Finite 1.11) (Finite 20))
                [unit_a, site_near, unit_b] = [unit_a, unit_b]"
    by (simp add: flat_km_def unit_a_def unit_b_def site_near_def)
  from filter_locations_ties[OF s, of "1.11" flat_km "[unit_a, site_near, unit_b]" "1.3" "103.8"
         "Finite 20"] k
  have "map fst (filter (\<lambda>r. snd r = 1.11)
          (filter_locations stable_sort flat_km [unit_a, site_near, unit_b] 1.3 103.8 (Finite 20)))
        = filter (\<lambda>row. flat_km (1.3, 103.8) (latitude row, longitude row) = 1.11 \<and>
                        float_le (Finite 1.11) (Finite 20))
                [unit_a, site_near, unit_b]"
    by blast
  with ties s k show ?thesis by (simp only: simp_thms)
qed

text \<open>The network sorts: the default kind meets the contract too.\<close>

lemma short_list_cases:
  assumes "length xs \<le> 4"
  obtains "xs = []" | a where "xs = [a]" | a b where "xs = [a, b]"
    | a b c where "xs = [a, b, c]" | a b c d where "xs = [a, b, c, d]"
proof -
  from assms show ?thesis
    by (cases xs; cases "tl xs"; cases "tl (tl xs)"; cases "tl (tl (tl xs))";
        cases "tl (tl (tl (tl xs)))") (auto intro: that)
qed

lemma network_sorts:
  assumes "length xs \<le> 4"
  shows "sorted (map key (quicksort_argsort key xs)) \<and> mset (quicksort_argsort key xs) = mset xs"
  using assms
proof (cases xs rule: short_list_cases)
  case 1 then show ?thesis
    by (simp add: quicksort_argsort_def sort_lanes_def cmp_merge_def List.map_filter_simps)
next
  case (2 a) then show ?thesis
    by (simp add: quicksort_argsort_def sort_lanes_def cmp_merge_def List.map_filter_simps)
next
  case (3 a b) then show ?thesis
    by (auto simp add: quicksort_argsort_def sort_lanes_def cmp_merge_def List.map_filter_simps)
next
  case (4 a b c) then show ?thesis
    by (auto simp add: quicksort_argsort_def sort_lanes_def cmp_merge_def List.map_filter_simps)
next
  case (5 a b c d) then show ?thesis
    by (auto simp add: quicksort_argsort_def sort_lanes_def cmp_merge_def List.map_filter_simps)
qed

lemma sorts_by_key_quicksort_argsort: "sorts_by_key quicksort_argsort"
  unfolding sorts_by_key_def
proof (intro allI)
  fix key :: "'a \<Rightarrow> real" and xs :: "'a list"
  show "sorted (map key (quicksort_argsort key xs)) \<and> mset (quicksort_argsort key xs) = mset xs"
  proof (cases "length xs \<le> 4")
    case True then show ?thesis by (rule network_sorts)
  next
    case False then show ?thesis by (simp add: quicksort_argsort_def)
  qed
qed

text \<open>On two rows at one distance the network leaves the table order as it is.\<close>

lemma quicksort_two_rows:
  "filter_locations quicksort_argsort flat_km [unit_a, unit_b] 1.3 103.8 (Finite 20)
     = [(unit_a, 1.11), (unit_b, 1.11)]"
  by (simp add: filter_locations_def quicksort_argsort_def sort_lanes_def cmp_merge_def
        List.map_filter_simps flat_km_def unit_a_def unit_b_def)

text \<open>
  Claim C4 as stated fails on a table of four rows, all within 20 km: the two units of
  block 5, at one distance, come first in the table, followed by two nearer records. The
  second step of the network exchanges lane 0 with lane 3 and lane 1 with lane 2, and no
  later step compares the two units with a strict difference, so \<open>unit_b\<close> comes back
  before \<open>unit_a\<close>.
\<close>

theorem filter_locations_ties_counterexample:
  "sorts_by_key (quicksort_argsort :: (located \<Rightarrow> real) \<Rightarrow> _) \<and>
   filter_locations quicksort_argsort flat_km [unit_a, unit_b, site_mid, site_near] 1.3 103.8
     (Finite 20)
     = [(site_near, 0), (site_mid, 0.555), (unit_b, 1.11), (unit_a, 1.11)] \<and>
   unit_a \<noteq> unit_b"
  using sorts_by_key_quicksort_argsort
  by (simp add: filter_locations_def quicksort_argsort_def sort_lanes_def cmp_merge_def
        List.map_filter_simps flat_km_def unit_a_def unit_b_def site_mid_def site_near_def)

section \<open>Properties of a submission\<close>

lemmas model_defs = process_user_input_def check_user_input_def extract_postal_code_def
  address_to_lat_long_def show_results_def call_display_map_def display_map_def
  check_location_in_sg_def

lemma check_user_input_True:
  "fst (check_user_input e a p) \<Longrightarrow>
     check_user_input e a p = (True, []) \<and>
     (\<exists>v. py_float e p = Some v \<and> \<not> float_le v (Finite 0))"
  by (auto simp add: check_user_input_def split: if_splits option.splits)

lemma check_user_input_False:
  "\<not> fst (check_user_input e a p) \<Longrightarrow>
     \<exists>msg. check_user_input e a p = (False, [Error_dialog msg])"
  by (auto simp add: check_user_input_def split: if_splits option.splits)

lemma process_invalid:
  assumes "check_user_input e a p = (False, evs)"
  shows "process_user_input e a p t = (evs, Returned)"
  using assms by (simp add: process_user_input_def)

lemma show_results_no_dialog_inside:
  "show_results e a thr t lat lng False =
     ([Error_dialog ''Unable to retrieve valid coordinates in Singapore''], Returned)"
  by (simp add: show_results_def)

lemma show_results_map:
  assumes "Save_map path m \<in> set (fst (show_results e a thr t lat lng b))"
  shows "b \<and> center m = (lat, lng)"
  using assms
  by (auto simp add: show_results_def call_display_map_def display_map_def create_folium_map_def
        Let_def split: if_splits sum.splits)

lemma show_results_shown:
  assumes "Show_map path \<in> set (fst (show_results e a thr t lat lng b))"
  shows "\<exists>m. Save_map path m \<in> set (fst (show_results e a thr t lat lng b))"
  using assms
  by (auto simp add: show_results_def call_display_map_def display_map_def
        Let_def split: if_splits sum.splits)

lemma show_results_trace:
  "\<not> list_ex is_fallback_call (fst (show_results e a thr t lat lng b))"
  by (simp add: show_results_def call_display_map_def display_map_def Let_def
        split: sum.splits)

text \<open>The trace of a valid submission, by the result of the primary geocoder.\<close>

lemma process_valid_None:
  assumes "fst (check_user_input e a p)"
      and "geopy_geocode e (extract_postal_code e a) = None"
  shows "process_user_input e a p t =
      ([Load_location_data, Load_spacy_model, Geocode_call ''geopy'' (extract_postal_code e a),
        Error_dialog ''Unable to retrieve coordinates for the address''], Returned)"
proof -
  from check_user_input_True[OF assms(1)] obtain v where
    c: "check_user_input e a p = (True, [])" and v: "py_float e p = Some v" by blast
  show ?thesis
    by (simp add: process_user_input_def c v address_to_lat_long_def Let_def assms(2))
qed

lemma process_valid_inside:
  assumes "fst (check_user_input e a p)"
      and "geopy_geocode e (extract_postal_code e a) = Some (lat, lng)"
      and "check_location_in_sg lat lng"
  shows "process_user_input e a p t =
      ([Load_location_data, Load_spacy_model, Geocode_call ''geopy'' (extract_postal_code e a)]
         @ fst (show_results e a (the (py_float e p)) t lat lng True),
       snd (show_results e a (the (py_float e p)) t lat lng True))"
proof -
  from check_user_input_True[OF assms(1)] obtain v where
    c: "check_user_input e a p = (True, [])" and v: "py_float e p = Some v" by blast
  show ?thesis
    by (simp add: process_user_input_def c v address_to_lat_long_def Let_def assms(2,3)
          split: prod.splits)
qed

lemma process_valid_outside_None:
  assumes "fst (check_user_input e a p)"
      and "geopy_geocode e (extract_postal_code e a) = Some (lat, lng)"
      and "\<not> check_location_in_sg lat lng"
      and "pgeocode_query e (extract_postal_code e a) = None"
  shows "process_user_input e a p t =
      ([Load_location_data, Load_spacy_model, Geocode_call ''geopy'' (extract_postal_code e a),
        Geocode_call ''pgeocode'' (extract_postal_code e a)], Raised AttributeError)"
proof -
  from check_user_input_True[OF assms(1)] obtain v where
    c: "check_user_input e a p = (True, [])" and v: "py_float e p = Some v" by blast
  show ?thesis
    by (simp add: process_user_input_def c v address_to_lat_long_def Let_def assms(2,3,4))
qed

lemma process_valid_outside_Some:
  assumes "fst (check_user_input e a p)"
      and "geopy_geocode e (extract_postal_code e a) = Some (lat, lng)"
      and "\<not> check_location_in_sg lat lng"
      and "pgeocode_query e (extract_postal_code e a) = Some (lat2, lng2)"
  shows "process_user_input e a p t =
      ([Load_location_data, Load_spacy_model, Geocode_call ''geopy'' (extract_postal_code e a),
        Geocode_call ''pgeocode'' (extract_postal_code e a)]
         @ fst (show_results e a (the (py_float e p)) t lat2 lng2 (check_location_in_sg lat2 lng2)),
       snd (show_results e a (the (py_float e p)) t lat2 lng2 (check_location_in_sg lat2 lng2)))"
proof -
  from check_user_input_True[OF assms(1)] obtain v where
    c: "check_user_input e a p = (True, [])" and v: "py_float e p = Some v" by blast
  show ?thesis
    by (simp add: process_user_input_def c v address_to_lat_long_def Let_def assms(2,3,4)
          split: prod.splits)
qed

lemma valid_example:
  "fst (check_user_input env_sg ''123 ABC Road Singapore 987123'' ''2'')"
  "fst (check_user_input env_no_result ''123 ABC Road Singapore 987123'' ''2'')"
  "fst (check_user_input env_abroad ''Somewhere'' ''2'')"
  "fst (check_user_input env_abroad_twice ''123 ABC Road Singapore 987123'' ''2'')"
  "fst (check_user_input env_remote ''123 ABC Road Singapore 987123'' ''2'')"
  by (simp_all add: check_user_input_def env_sg_def env_no_result_def env_abroad_def
        env_abroad_twice_def env_remote_def example_float_def)

lemma postal_example:
  "extract_postal_code env_sg ''123 ABC Road Singapore 987123'' = Some ''987123''"
  "extract_postal_code env_no_result ''123 ABC Road Singapore 987123'' = Some ''987123''"
  "extract_postal_code env_abroad ''Somewhere'' = None"
  "extract_postal_code env_abroad_twice ''123 ABC Road Singapore 987123'' = Some ''987123''"
  "extract_postal_code env_remote ''123 ABC Road Singapore 987123'' = Some ''987123''"
  by (simp_all add: extract_postal_code_def env_sg_def env_no_result_def env_abroad_def
        env_abroad_twice_def env_remote_def example_nlp_def)

text \<open>What validation does reject: a text on which \<^verbatim>\<open>float()\<close> raises
  \<^verbatim>\<open>ValueError\<close>, and a text whose value compares \<^verbatim>\<open><= 0\<close>. Then
  \<^verbatim>\<open>check_user_input\<close> returns \<^verbatim>\<open>False\<close> after one error dialog and
  \<^verbatim>\<open>process_user_input\<close> does nothing else.\<close>

lemma invalid_threshold_rejected:
  assumes "py_float e proximity_text = None \<or>
           (\<exists>v. py_float e proximity_text = Some v \<and> float_le v (Finite 0))"
  shows "(\<exists>msg. check_user_input e input_address proximity_text = (False, [Error_dialog msg]) \<and>
               process_user_input e input_address proximity_text map_type
                 = ([Error_dialog msg], Returned))
       \<and> \<not> list_ex is_geocode_call
             (fst (process_user_input e input_address proximity_text map_type))"
proof -
  have "\<not> fst (check_user_input e input_address proximity_text)"
    using assms by (auto simp add: check_user_input_def)
  then obtain msg where
    c: "check_user_input e input_address proximity_text = (False, [Error_dialog msg])"
    using check_user_input_False by blast
  have p: "process_user_input e input_address proximity_text map_type
             = ([Error_dialog msg], Returned)"
    by (rule process_invalid[OF c])
  from c p show ?thesis by simp
qed

lemma invalid_threshold_examples:
  "process_user_input env_sg ''123 ABC Road Singapore 987123'' ''two'' ''Clusters''
     = ([Error_dialog ''Proximity threshold must be a valid number.''], Returned)"
  "process_user_input env_sg ''123 ABC Road Singapore 987123'' ''-1'' ''Clusters''
     = ([Error_dialog ''Proximity threshold must be a positive number.''], Returned)"
  by (simp_all add: process_user_input_def check_user_input_def env_sg_def example_float_def)

text \<open>
  Claim C5 says that a threshold text that is non-numeric, or a number that is at most 0,
  is rejected before any geocoder is called. The code tests \<^verbatim>\<open>float(text) <= 0\<close>,
  and for the text \<^verbatim>\<open>nan\<close> \<^verbatim>\<open>float()\<close> succeeds and the comparison is
  \<^verbatim>\<open>False\<close>: \<^verbatim>\<open>check_user_input\<close> returns \<^verbatim>\<open>True\<close> with no dialog, although
  its own dialogs ask for a valid, positive number, and the geocoder is called.
\<close>

theorem nan_threshold_accepted:
  "py_float env_sg ''nan'' = Some Nan \<and>
   check_user_input env_sg ''123 ABC Road Singapore 987123'' ''nan'' = (True, []) \<and>
   process_user_input env_sg ''123 ABC Road Singapore 987123'' ''nan'' ''Clusters'' =
     ([Load_location_data, Load_spacy_model, Geocode_call ''geopy'' (Some ''987123'')],
      Raised TypeError) \<and>
   list_ex is_geocode_call
     (fst (process_user_input env_sg ''123 ABC Road Singapore 987123'' ''nan'' ''Clusters''))"
  by (simp add: model_defs example_defs filter_locations_def)

text \<open>
  Claim C2. For a valid submission whose coordinate from the primary geocoder lies outside
  the bounding box, \<^verbatim>\<open>process_user_input\<close> calls the fallback geocoder exactly once, and
  no error dialog is shown before that call.
\<close>

theorem fallback_attempted_once:
  assumes "fst (check_user_input e a p)"
      and "geopy_geocode e (extract_postal_code e a) = Some (lat, lng)"
      and "\<not> check_location_in_sg lat lng"
  shows "length (filter is_fallback_call (fst (process_user_input e a p t))) = 1 \<and>
         \<not> list_ex is_error_dialog
             (takeWhile (\<lambda>ev. \<not> is_fallback_call ev) (fst (process_user_input e a p t)))"
proof (cases "pgeocode_query e (extract_postal_code e a)")
  case None
  show ?thesis
    unfolding process_valid_outside_None[OF assms None] by simp
next
  case (Some c)
  obtain lat2 lng2 where c: "c = (lat2, lng2)" by (cases c)
  have none: "filter is_fallback_call
                (fst (show_results e a (the (py_float e p)) t lat2 lng2
                        (check_location_in_sg lat2 lng2))) = []"
    using show_results_trace[of e a "the (py_float e p)" t lat2 lng2]
    by (simp add: list_ex_iff filter_empty_conv)
  show ?thesis
    unfolding process_valid_outside_Some[OF assms Some[unfolded c]]
    by (simp add: none)
qed

lemma abroad_twice_trace:
  "process_user_input env_abroad_twice ''123 ABC Road Singapore 987123'' ''2'' ''Clusters'' =
     ([Load_location_data, Load_spacy_model, Geocode_call ''geopy'' (Some ''987123''),
       Geocode_call ''pgeocode'' (Some ''987123''),
       Error_dialog ''Unable to retrieve valid coordinates in Singapore''], Returned)"
proof -
  have g: "geopy_geocode env_abroad_twice
             (extract_postal_code env_abroad_twice ''123 ABC Road Singapore 987123'')
           = Some (44.93, 7.54)"
    by (simp add: env_abroad_twice_def env_sg_def)
  have q: "pgeocode_query env_abroad_twice
             (extract_postal_code env_abroad_twice ''123 ABC Road Singapore 987123'')
           = Some (3.14, 101.69)"
    by (simp add: env_abroad_twice_def env_sg_def)
  have o1: "\<not> check_location_in_sg 44.93 7.54" by (simp add: check_location_in_sg_def)
  have o2: "check_location_in_sg 3.14 101.69 = False" by (simp add: check_location_in_sg_def)
  show ?thesis
    unfolding process_valid_outside_Some[OF valid_example(4) g o1 q] o2
      show_results_no_dialog_inside postal_example
    by simp
qed

theorem fallback_attempted_once_witness:
  "fst (check_user_input env_abroad_twice ''123 ABC Road Singapore 987123'' ''2'') \<and>
   geopy_geocode env_abroad_twice
     (extract_postal_code env_abroad_twice ''123 ABC Road Singapore 987123'') = Some (44.93, 7.54) \<and>
   \<not> check_location_in_sg 44.93 7.54 \<and>
   length (filter is_fallback_call
     (fst (process_user_input env_abroad_twice ''123 ABC Road Singapore 987123'' ''2''
             ''Clusters''))) = 1 \<and>
   list_ex is_error_dialog
     (fst (process_user_input env_abroad_twice ''123 ABC Road Singapore 987123'' ''2''
             ''Clusters''))"
proof -
  have g: "geopy_geocode env_abroad_twice
             (extract_postal_code env_abroad_twice ''123 ABC Road Singapore 987123'')
           = Some (44.93, 7.54)"
    by (simp add: env_abroad_twice_def env_sg_def)
  have o1: "\<not> check_location_in_sg 44.93 7.54" by (simp add: check_location_in_sg_def)
  have d: "list_ex is_error_dialog
     (fst (process_user_input env_abroad_twice ''123 ABC Road Singapore 987123'' ''2''
             ''Clusters''))"
    unfolding abroad_twice_trace by simp
  from fallback_attempted_once[OF valid_example(4) g o1, of "''Clusters''"] valid_example(4) g o1 d
  show ?thesis by blast
qed

text \<open>The fallback geocoder is called for a valid submission with a primary coordinate
  outside the box, and for no other.\<close>

lemma fallback_only_when_outside:
  assumes "list_ex is_fallback_call (fst (process_user_input e a p t))"
  shows "fst (check_user_input e a p) \<and>
         (\<exists>lat lng. geopy_geocode e (extract_postal_code e a) = Some (lat, lng) \<and>
                     \<not> check_location_in_sg lat lng)"
proof (cases "fst (check_user_input e a p)")
  case False
  then obtain msg where "check_user_input e a p = (False, [Error_dialog msg])"
    using check_user_input_False by blast
  from process_invalid[OF this] assms show ?thesis by simp
next
  case valid: True
  show ?thesis
  proof (cases "geopy_geocode e (extract_postal_code e a)")
    case None
    from assms show ?thesis unfolding process_valid_None[OF valid None] by simp
  next
    case (Some c)
    obtain lat lng where c: "c = (lat, lng)" by (cases c)
    note g = Some[unfolded c]
    show ?thesis
    proof (cases "check_location_in_sg lat lng")
      case True
      from assms show ?thesis
        unfolding process_valid_inside[OF valid g True]
        using show_results_trace[of e a "the (py_float e p)" t lat lng True]
        by simp
    next
      case False
      with valid g show ?thesis by blast
    qed
  qed
qed

text \<open>
  Claim C6, as amended. For a valid submission for which the primary geocoder returns no
  result, \<^verbatim>\<open>process_user_input\<close> shows the dialog
  \<^verbatim>\<open>Unable to retrieve coordinates for the address\<close> and returns; the secondary geocoder
  is not called. The secondary geocoder is called only for a valid submission whose
  coordinate from the primary geocoder lies outside the bounding box.
\<close>

theorem no_primary_result_no_fallback:
  "(fst (check_user_input e a p) \<and> geopy_geocode e (extract_postal_code e a) = None \<longrightarrow>
      process_user_input e a p t =
        ([Load_location_data, Load_spacy_model,
          Geocode_call ''geopy'' (extract_postal_code e a),
          Error_dialog ''Unable to retrieve coordinates for the address''], Returned) \<and>
      \<not> list_ex is_fallback_call (fst (process_user_input e a p t))) \<and>
   (list_ex is_fallback_call (fst (process_user_input e a p t)) \<longrightarrow>
      fst (check_user_input e a p) \<and>
      (\<exists>lat lng. geopy_geocode e (extract_postal_code e a) = Some (lat, lng) \<and>
                  \<not> check_location_in_sg lat lng))"
proof -
  have first: "process_user_input e a p t =
        ([Load_location_data, Load_spacy_model,
          Geocode_call ''geopy'' (extract_postal_code e a),
          Error_dialog ''Unable to retrieve coordinates for the address''], Returned) \<and>
      \<not> list_ex is_fallback_call (fst (process_user_input e a p t))"
    if "fst (check_user_input e a p)" "geopy_geocode e (extract_postal_code e a) = None"
    unfolding process_valid_None[OF that] by simp
  from first fallback_only_when_outside[of e a p t] show ?thesis by blast
qed

theorem no_primary_result_no_fallback_witness:
  "fst (check_user_input env_no_result ''123 ABC Road Singapore 987123'' ''2'') \<and>
   geopy_geocode env_no_result
     (extract_postal_code env_no_result ''123 ABC Road Singapore 987123'') = None \<and>
   process_user_input env_no_result ''123 ABC Road Singapore 987123'' ''2'' ''Clusters'' =
     ([Load_location_data, Load_spacy_model, Geocode_call ''geopy'' (Some ''987123''),
       Error_dialog ''Unable to retrieve coordinates for the address''], Returned) \<and>
   list_ex is_fallback_call
     (fst (process_user_input env_abroad_twice ''123 ABC Road Singapore 987123'' ''2''
             ''Clusters'')) \<and>
   (\<exists>lat lng. geopy_geocode env_abroad_twice
                 (extract_postal_code env_abroad_twice ''123 ABC Road Singapore 987123'')
                 = Some (lat, lng) \<and>
               \<not> check_location_in_sg lat lng)"
proof -
  have g: "geopy_geocode env_no_result
     (extract_postal_code env_no_result ''123 ABC Road Singapore 987123'') = None"
    by (simp add: env_no_result_def)
  from no_primary_result_no_fallback[of env_no_result "''123 ABC Road Singapore 987123''"
         "''2''" "''Clusters''"] valid_example(2) g
  have "process_user_input env_no_result ''123 ABC Road Singapore 987123'' ''2'' ''Clusters'' =
     ([Load_location_data, Load_spacy_model,
       Geocode_call ''geopy''
         (extract_postal_code env_no_result ''123 ABC Road Singapore 987123''),
       Error_dialog ''Unable to retrieve coordinates for the address''], Returned)"
    by blast
  then have t: "process_user_input env_no_result ''123 ABC Road Singapore 987123'' ''2''
       ''Clusters'' =
     ([Load_location_data, Load_spacy_model, Geocode_call ''geopy'' (Some ''987123''),
       Error_dialog ''Unable to retrieve coordinates for the address''], Returned)"
    by (simp only: postal_example)
  have f: "list_ex is_fallback_call
     (fst (process_user_input env_abroad_twice ''123 ABC Road Singapore 987123'' ''2''
             ''Clusters''))"
    unfolding abroad_twice_trace by simp
  from no_primary_result_no_fallback[of env_abroad_twice "''123 ABC Road Singapore 987123''"
         "''2''" "''Clusters''"] f
  have o: "\<exists>lat lng. geopy_geocode env_abroad_twice
                 (extract_postal_code env_abroad_twice ''123 ABC Road Singapore 987123'')
                 = Some (lat, lng) \<and>
               \<not> check_location_in_sg lat lng"
    by blast
  from valid_example(2) g t f o show ?thesis by blast
qed

text \<open>
  Claim C6 as stated fails: the primary geocoder returns \<^verbatim>\<open>None\<close>, an error dialog is
  shown, and the trace holds no call of pgeocode.
\<close>

theorem no_primary_result_counterexample:
  "address_to_lat_long env_no_result (Some ''987123'') ''geopy''
     = ([Geocode_call ''geopy'' (Some ''987123'')], None) \<and>
   list_ex is_error_dialog
     (fst (process_user_input env_no_result ''123 ABC Road Singapore 987123'' ''2''
             ''Clusters'')) \<and>
   \<not> list_ex is_fallback_call
     (fst (process_user_input env_no_result ''123 ABC Road Singapore 987123'' ''2''
             ''Clusters''))"
  by (simp add: model_defs example_defs)

lemma check_location_in_sg_iff:
  "check_location_in_sg lat lng \<longleftrightarrow>
     (1.15 \<le> lat \<and> lat \<le> 1.47) \<and> (103.6 \<le> lng \<and> lng \<le> 104.1)"
  by (simp add: check_location_in_sg_def)

lemma process_user_input_map:
  assumes "Save_map path m \<in> set (fst (process_user_input e a p t))"
  shows "check_location_in_sg (fst (center m)) (snd (center m)) \<and>
         (geopy_geocode e (extract_postal_code e a) = Some (center m) \<or>
          pgeocode_query e (extract_postal_code e a) = Some (center m))"
proof (cases "fst (check_user_input e a p)")
  case False
  then obtain msg where "check_user_input e a p = (False, [Error_dialog msg])"
    using check_user_input_False by blast
  from process_invalid[OF this] assms show ?thesis by simp
next
  case valid: True
  show ?thesis
  proof (cases "geopy_geocode e (extract_postal_code e a)")
    case None
    from assms show ?thesis unfolding process_valid_None[OF valid None] by simp
  next
    case (Some c)
    obtain lat lng where c: "c = (lat, lng)" by (cases c)
    note g = Some[unfolded c]
    show ?thesis
    proof (cases "check_location_in_sg lat lng")
      case True
      from assms have "Save_map path m \<in>
          set (fst (show_results e a (the (py_float e p)) t lat lng True))"
        unfolding process_valid_inside[OF valid g True] by simp
      from show_results_map[OF this] have "center m = (lat, lng)" by simp
      with True g show ?thesis by simp
    next
      case False
      show ?thesis
      proof (cases "pgeocode_query e (extract_postal_code e a)")
        case None
        from assms show ?thesis
          unfolding process_valid_outside_None[OF valid g False None] by simp
      next
        case (Some c2)
        obtain lat2 lng2 where c2: "c2 = (lat2, lng2)" by (cases c2)
        note q = Some[unfolded c2]
        from assms have "Save_map path m \<in>
            set (fst (show_results e a (the (py_float e p)) t lat2 lng2
                        (check_location_in_sg lat2 lng2)))"
          unfolding process_valid_outside_Some[OF valid g False q] by simp
        from show_results_map[OF this]
        have "check_location_in_sg lat2 lng2" "center m = (lat2, lng2)" by simp_all
        with q show ?thesis by simp
      qed
    qed
  qed
qed

lemma process_user_input_shown:
  assumes "Show_map path \<in> set (fst (process_user_input e a p t))"
  shows "\<exists>m. Save_map path m \<in> set (fst (process_user_input e a p t))"
proof (cases "fst (check_user_input e a p)")
  case False
  then obtain msg where "check_user_input e a p = (False, [Error_dialog msg])"
    using check_user_input_False by blast
  from process_invalid[OF this] assms show ?thesis by simp
next
  case valid: True
  show ?thesis
  proof (cases "geopy_geocode e (extract_postal_code e a)")
    case None
    from assms show ?thesis unfolding process_valid_None[OF valid None] by simp
  next
    case (Some c)
    obtain lat lng where c: "c = (lat, lng)" by (cases c)
    note g = Some[unfolded c]
    show ?thesis
    proof (cases "check_location_in_sg lat lng")
      case True
      from assms have "Show_map path \<in>
          set (fst (show_results e a (the (py_float e p)) t lat lng True))"
        unfolding process_valid_inside[OF valid g True] by simp
      from show_results_shown[OF this] show ?thesis
        unfolding process_valid_inside[OF valid g True] by auto
    next
      case False
      show ?thesis
      proof (cases "pgeocode_query e (extract_postal_code e a)")
        case None
        from assms show ?thesis
          unfolding process_valid_outside_None[OF valid g False None] by simp
      next
        case (Some c2)
        obtain lat2 lng2 where c2: "c2 = (lat2, lng2)" by (cases c2)
        note q = Some[unfolded c2]
        from assms have "Show_map path \<in>
            set (fst (show_results e a (the (py_float e p)) t lat2 lng2
                        (check_location_in_sg lat2 lng2)))"
          unfolding process_valid_outside_Some[OF valid g False q] by simp
        from show_results_shown[OF this] show ?thesis
          unfolding process_valid_outside_Some[OF valid g False q] by auto
      qed
    qed
  qed
qed

lemma sg_trace:
  "process_user_input env_sg ''123 ABC Road Singapore 987123'' ''2'' ''Clusters'' =
  ([Load_location_data, Load_spacy_model, Geocode_call ''geopy'' (Some ''987123''),
    Save_map ''map_123_ABC_Road_Singapore_987123_Clusters.html'' map_sg,
    Show_map ''map_123_ABC_Road_Singapore_987123_Clusters.html''], Returned)"
proof -
  have f: "filter_locations (sort_values env_sg) (distance_km env_sg) (location_data env_sg)
             1.3 103.8 (Finite 2)
     = [(site_near, 0), (unit_a, 1.11), (unit_b, 1.11)]"
    using example_filter_2km by (simp add: env_sg_def)
  have p: "py_float env_sg ''2'' = Some (Finite 2)"
    by (simp add: env_sg_def example_float_def)
  have b: "check_location_in_sg 1.3 103.8"
    by (simp add: check_location_in_sg_def)
  have n: "map_filename ''123 ABC Road Singapore 987123'' ''Clusters''
             = ''map_123_ABC_Road_Singapore_987123_Clusters.html''"
    by (simp add: map_filename_def underscored_def)
  have z: "get_zoom_level 2 = 16"
    by (simp add: get_zoom_level_def np_interp_def py_int_def)
  have m: "create_folium_map (Some [(site_near, 0), (unit_a, 1.11), (unit_b, 1.11)])
             ''123 ABC Road Singapore 987123'' 1.3 103.8 (Finite 2) ''Clusters'' = Inr map_sg"
    by (simp add: create_folium_map_def get_zoom_level_float_def z km_to_metres_def map_sg_def
          site_near_def unit_a_def unit_b_def)
  have s: "show_results env_sg ''123 ABC Road Singapore 987123'' (Finite 2) ''Clusters''
             1.3 103.8 True =
    ([Save_map ''map_123_ABC_Road_Singapore_987123_Clusters.html'' map_sg,
      Show_map ''map_123_ABC_Road_Singapore_987123_Clusters.html''], Returned)"
    by (simp only: show_results_def f Let_def call_display_map_def display_map_def n m
          option.case sum.case simp_thms if_True list.distinct not_False_eq_True)
  have gg: "geopy_geocode env_sg
              (extract_postal_code env_sg ''123 ABC Road Singapore 987123'')
            = Some (1.3, 103.8)"
    unfolding postal_example by (simp add: env_sg_def)
  from process_valid_inside[OF valid_example(1) gg b, of "''Clusters''"] show ?thesis
    by (simp only: p s postal_example option.sel fst_conv snd_conv append.simps)
qed

text \<open>What \<^verbatim>\<open>GeoAppCmd.run\<close> does with the first submission that is read and geocoded,
  when some record is within the threshold: it saves and shows a map centred on the
  coordinate, whatever the coordinate is.\<close>

lemma cmd_run_renders:
  assumes "get_user_input e stdin = (Inr (a, thr), rest)"
      and "geopy_geocode e (first_postal_code (nlp e a)) = Some (lat, lng)"
      and "cmd_filter_locations (distance_km e) (location_data e) lat lng thr \<noteq> []"
  shows "\<exists>m. cmd_run e stdin =
               ([Load_location_data, Load_spacy_model,
                 Geocode_call ''geopy'' (first_postal_code (nlp e a)),
                 Save_map ''map.html'' m, Show_map ''map.html''], Returned) \<and>
             center m = (lat, lng)"
proof -
  have "thr \<noteq> Nan"
    using assms(3) by (auto simp add: cmd_filter_locations_def)
  then obtain z where z: "cmd_get_zoom_level_float thr = Inr z"
    by (cases thr) (simp_all add: cmd_get_zoom_level_float_def)
  show ?thesis
    using assms(3)
    by (simp add: cmd_run_def run_loop.simps[of e stdin] assms(1,2) cmd_address_to_lat_long_def
          cmd_display_map_def cmd_create_folium_map_def z Let_def)
qed

text \<open>
  Claim C8, as amended. \<^verbatim>\<open>check_location_in_sg\<close> returns \<^verbatim>\<open>True\<close> exactly for a
  latitude in [1.15, 1.47] and a longitude in [103.6, 104.1]. \<^verbatim>\<open>GeoApp.process_user_input\<close>
  saves and shows a map only for a coordinate inside that box: the map is centred on a
  coordinate that a geocoder returned for the postal code and that passes the check.
  \<^verbatim>\<open>GeoAppCmd.run\<close> has no such test: it renders the filtered locations for whatever
  coordinate the geocoder returns.
\<close>

theorem map_only_inside_box:
  "(check_location_in_sg lat lng \<longleftrightarrow>
      (1.15 \<le> lat \<and> lat \<le> 1.47) \<and> (103.6 \<le> lng \<and> lng \<le> 104.1)) \<and>
   (Save_map path m \<in> set (fst (process_user_input e a p t)) \<longrightarrow>
      check_location_in_sg (fst (center m)) (snd (center m)) \<and>
      (geopy_geocode e (extract_postal_code e a) = Some (center m) \<or>
       pgeocode_query e (extract_postal_code e a) = Some (center m))) \<and>
   (Show_map path \<in> set (fst (process_user_input e a p t)) \<longrightarrow>
      (\<exists>m'. Save_map path m' \<in> set (fst (process_user_input e a p t)))) \<and>
   (get_user_input e stdin = (Inr (a', thr), rest) \<and>
    geopy_geocode e (first_postal_code (nlp e a')) = Some (lat', lng') \<and>
    cmd_filter_locations (distance_km e) (location_data e) lat' lng' thr \<noteq> [] \<longrightarrow>
      (\<exists>m'. cmd_run e stdin =
               ([Load_location_data, Load_spacy_model,
                 Geocode_call ''geopy'' (first_postal_code (nlp e a')),
                 Save_map ''map.html'' m', Show_map ''map.html''], Returned) \<and>
             center m' = (lat', lng')))"
  using check_location_in_sg_iff[of lat lng] process_user_input_map[of path m e a p t]
    process_user_input_shown[of path e a p t] cmd_run_renders[of e stdin a' thr rest lat' lng']
  by blast

theorem map_only_inside_box_witness:
  "Save_map ''map_123_ABC_Road_Singapore_987123_Clusters.html'' map_sg
     \<in> set (fst (process_user_input env_sg ''123 ABC Road Singapore 987123'' ''2'' ''Clusters'')) \<and>
   center map_sg = (1.3, 103.8) \<and>
   check_location_in_sg 1.3 103.8 \<and> \<not> check_location_in_sg 44.93 7.54 \<and>
   get_user_input env_jb [''Jalan Wong Ah Fook Johor Bahru 80000'', ''20'']
     = (Inr (''Jalan Wong Ah Fook Johor Bahru 80000'', Finite 20), []) \<and>
   geopy_geocode env_jb (first_postal_code (nlp env_jb ''Jalan Wong Ah Fook Johor Bahru 80000''))
     = Some (1.4927, 103.7414) \<and>
   cmd_filter_locations (distance_km env_jb) (location_data env_jb) 1.4927 103.7414 (Finite 20)
     = [site_far] \<and>
   (\<exists>m'. Save_map ''map.html'' m'
            \<in> set (fst (cmd_run env_jb [''Jalan Wong Ah Fook Johor Bahru 80000'', ''20''])) \<and>
          center m' = (1.4927, 103.7414))"
proof -
  note t = map_only_inside_box[of "44.93" "7.54"
         "''map_123_ABC_Road_Singapore_987123_Clusters.html''" map_sg env_sg
         "''123 ABC Road Singapore 987123''" "''2''" "''Clusters''"]
  have s: "Save_map ''map_123_ABC_Road_Singapore_987123_Clusters.html'' map_sg
     \<in> set (fst (process_user_input env_sg ''123 ABC Road Singapore 987123'' ''2'' ''Clusters''))"
    unfolding sg_trace by simp
  have c: "center map_sg = (1.3, 103.8)"
    by (simp add: map_sg_def)
  from t s have "check_location_in_sg (fst (center map_sg)) (snd (center map_sg))"
    by blast
  then have i: "check_location_in_sg 1.3 103.8"
    by (simp only: c fst_conv snd_conv)
  from t have o: "\<not> check_location_in_sg 44.93 7.54"
    by simp
  have u: "get_user_input env_jb [''Jalan Wong Ah Fook Johor Bahru 80000'', ''20'']
     = (Inr (''Jalan Wong Ah Fook Johor Bahru 80000'', Finite 20), [])"
    by (simp add: env_jb_def env_sg_def example_float_def)
  have g: "geopy_geocode env_jb
             (first_postal_code (nlp env_jb ''Jalan Wong Ah Fook Johor Bahru 80000''))
     = Some (1.4927, 103.7414)"
    by (simp add: env_jb_def env_sg_def example_nlp_def)
  have f: "cmd_filter_locations (distance_km env_jb) (location_data env_jb) 1.4927 103.7414
             (Finite 20) = [site_far]"
    by (simp add: cmd_filter_locations_def example_defs)
  then have n: "cmd_filter_locations (distance_km env_jb) (location_data env_jb) 1.4927 103.7414
             (Finite 20) \<noteq> []"
    by simp
  from map_only_inside_box[of 0 0 "[]" map_sg env_jb "[]" "[]" "[]"
         "[''Jalan Wong Ah Fook Johor Bahru 80000'', ''20'']"
         "''Jalan Wong Ah Fook Johor Bahru 80000''" "Finite 20" "[]" "1.4927" "103.7414"] u g n
  have "\<exists>m'. cmd_run env_jb [''Jalan Wong Ah Fook Johor Bahru 80000'', ''20''] =
               ([Load_location_data, Load_spacy_model,
                 Geocode_call ''geopy''
                   (first_postal_code (nlp env_jb ''Jalan Wong Ah Fook Johor Bahru 80000'')),
                 Save_map ''map.html'' m', Show_map ''map.html''], Returned) \<and>
             center m' = (1.4927, 103.7414)"
    by blast
  then have r: "\<exists>m'. Save_map ''map.html'' m'
            \<in> set (fst (cmd_run env_jb [''Jalan Wong Ah Fook Johor Bahru 80000'', ''20''])) \<and>
          center m' = (1.4927, 103.7414)"
    by auto
  from s c i o u g f r show ?thesis by blast
qed

text \<open>
  Claim C8 as stated fails for \<^verbatim>\<open>GeoAppCmd.run\<close>: the geocoder resolves the postal code
  to a coordinate in Johor Bahru, north of the box, one record of the table is within 20 km
  of it, and the map with that record is saved and shown.
\<close>

theorem cmd_run_outside_box:
  "cmd_run env_jb [''Jalan Wong Ah Fook Johor Bahru 80000'', ''20''] =
     ([Load_location_data, Load_spacy_model, Geocode_call ''geopy'' (Some ''80000''),
       Save_map ''map.html'' map_jb, Show_map ''map.html''], Returned) \<and>
   center map_jb = (1.4927, 103.7414) \<and>
   \<not> check_location_in_sg 1.4927 103.7414"
proof -
  have z: "cmd_get_zoom_level 20 = 13"
    by (simp add: cmd_get_zoom_level_def np_interp_def py_int_def)
  have r: "cmd_run env_jb [''Jalan Wong Ah Fook Johor Bahru 80000'', ''20''] =
     ([Load_location_data, Load_spacy_model, Geocode_call ''geopy'' (Some ''80000''),
       Save_map ''map.html'' map_jb, Show_map ''map.html''], Returned)"
    by (simp add: cmd_run_def run_loop.simps[of env_jb] cmd_address_to_lat_long_def
          cmd_display_map_def cmd_create_folium_map_def cmd_get_zoom_level_float_def z
          km_to_metres_def map_jb_def cmd_filter_locations_def example_defs)
  have c: "center map_jb = (1.4927, 103.7414)"
    by (simp add: map_jb_def)
  have o: "\<not> check_location_in_sg 1.4927 103.7414"
    by (simp add: check_location_in_sg_def)
  from r c o show ?thesis by blast
qed

text \<open>With \<^verbatim>\<open>None\<close> for the frame and all six arguments, the map would hold the input
  marker, the proximity circle and the measure control only. The call that
  \<^verbatim>\<open>process_user_input\<close> makes for an empty result never gets that far.\<close>

lemma map_without_locations:
  "create_folium_map None input_address lat lng (Finite thr) map_type =
     Inr \<lparr>center = (lat, lng), zoom_start = get_zoom_level thr,
          children = [Input_marker input_address (lat, lng),
                      Proximity_circle (lat, lng) (Finite (thr * 1000)), Measure_control]\<rparr>"
  by (simp add: create_folium_map_def get_zoom_level_float_def km_to_metres_def)

lemma empty_result_raises:
  assumes "filter_locations (sort_values e) (distance_km e) (location_data e) lat lng thr = []"
  shows "show_results e input_address thr map_type lat lng True = ([], Raised TypeError)"
  using assms by (simp add: show_results_def call_display_map_def)

text \<open>
  Claim C3 says that a valid query with an empty result still renders a map, with the input
  marker and the proximity circle only, and then shows a dialog. The code does not: the call
  of \<^verbatim>\<open>display_map\<close> in that branch leaves out \<^verbatim>\<open>map_type\<close>, so the submission ends
  in \<^verbatim>\<open>TypeError\<close> with no map and no dialog. Here the only record of the table is 11 km
  from the resolved coordinate and the threshold is 2 km.
\<close>

theorem empty_result_not_rendered:
  "fst (check_user_input env_remote ''123 ABC Road Singapore 987123'' ''2'') \<and>
   filter_locations (sort_values env_remote) (distance_km env_remote) (location_data env_remote)
     1.3 103.8 (Finite 2) = [] \<and>
   process_user_input env_remote ''123 ABC Road Singapore 987123'' ''2'' ''Clusters'' =
     ([Load_location_data, Load_spacy_model, Geocode_call ''geopy'' (Some ''987123'')],
      Raised TypeError) \<and>
   \<not> list_ex is_map_event
       (fst (process_user_input env_remote ''123 ABC Road Singapore 987123'' ''2'' ''Clusters'')) \<and>
   \<not> list_ex is_error_dialog
       (fst (process_user_input env_remote ''123 ABC Road Singapore 987123'' ''2'' ''Clusters''))"
  by (simp add: model_defs example_defs filter_locations_def)

text \<open>
  Claim C7 says that a submission is answered with an error dialog when the fallback
  geocoder has no result or an out-of-bounds one. With an out-of-bounds result it is
  (\<open>fallback_out_of_bounds_reported\<close> below); with no result the code reads
  \<^verbatim>\<open>latitude\<close> of \<^verbatim>\<open>None\<close> and ends in \<^verbatim>\<open>AttributeError\<close> with no dialog.
\<close>

theorem fallback_without_result_raises:
  "fst (check_user_input env_abroad ''Somewhere'' ''2'') \<and>
   address_to_lat_long env_abroad None ''geopy''
     = ([Geocode_call ''geopy'' None], Some (44.93, 7.54)) \<and>
   address_to_lat_long env_abroad None ''pgeocode'' = ([Geocode_call ''pgeocode'' None], None) \<and>
   process_user_input env_abroad ''Somewhere'' ''2'' ''Clusters'' =
     ([Load_location_data, Load_spacy_model, Geocode_call ''geopy'' None,
       Geocode_call ''pgeocode'' None], Raised AttributeError) \<and>
   \<not> list_ex is_error_dialog
       (fst (process_user_input env_abroad ''Somewhere'' ''2'' ''Clusters''))"
  by (simp add: model_defs example_defs)

text \<open>The part of claim C7 that holds: an out-of-bounds result of the fallback geocoder is
  reported with a dialog, and the submission returns.\<close>

lemma fallback_out_of_bounds_reported:
  assumes "fst (check_user_input e a p)"
      and "geopy_geocode e (extract_postal_code e a) = Some (lat, lng)"
      and "\<not> check_location_in_sg lat lng"
      and "pgeocode_query e (extract_postal_code e a) = Some (lat2, lng2)"
      and "\<not> check_location_in_sg lat2 lng2"
  shows "process_user_input e a p t =
      ([Load_location_data, Load_spacy_model, Geocode_call ''geopy'' (extract_postal_code e a),
        Geocode_call ''pgeocode'' (extract_postal_code e a),
        Error_dialog ''Unable to retrieve valid coordinates in Singapore''], Returned)"
  unfolding process_valid_outside_Some[OF assms(1-4)] using assms(5)
  by (simp add: show_results_no_dialog_inside)

end
